theory Spec2Isabelle
  imports Main "HOL-Library.Sublist"
begin

section \<open>Python values used by GmailManager.py\<close>

text \<open>
  The module is a thin layer over three packages of the Python standard library:
  \<^verbatim>\<open>smtplib\<close>, \<^verbatim>\<open>imaplib\<close> and \<^verbatim>\<open>email\<close>. The methods of class \<^verbatim>\<open>Email\<close> are
  embedded below under their own names. Of the library, the parts whose behaviour decides
  a property are written out from the CPython 3.11 sources (header lookup, the content
  type, \<^verbatim>\<open>walk\<close>, \<^verbatim>\<open>get_payload\<close>, \<^verbatim>\<open>sendmail\<close>, the context managers); codecs and parsers
  are taken as parameters (record \<open>library\<close>), and the outside world (files, the SMTP and
  the IMAP server) is the record \<open>world\<close>.

  A Python \<^verbatim>\<open>str\<close> and a Python \<^verbatim>\<open>bytes\<close> are both a \<open>string\<close>: text is held as its
  bytes (ASCII, or UTF-8 beyond ASCII). A raised exception is the left summand of the
  result, a returned value the right one.
\<close>

datatype exn =
    OSError string
  | TypeError string
  | IndexError string
  | IMAP4_error string

type_synonym header = "string \<times> string"

text \<open>
  \<^verbatim>\<open>email.message.Message\<close>: the header list \<^verbatim>\<open>_headers\<close> (in order, names may repeat), the
  default content type \<^verbatim>\<open>_default_type\<close>, and the payload \<^verbatim>\<open>_payload\<close>, which is text for a
  single part (\<open>Leaf\<close>) and a list of messages for a multipart container (\<open>Container\<close>):
  \<^verbatim>\<open>is_multipart()\<close> is \<^verbatim>\<open>isinstance(self._payload, list)\<close>.
\<close>

datatype message =
    Leaf (headers: "header list") (default_type: string) (content: string)
  | Container (headers: "header list") (default_type: string) (parts: "message list")

datatype payload = Str string | Lst "message list"

subsection \<open>String methods\<close>

definition lower_char :: "char \<Rightarrow> char" where
  "lower_char c =
     (case map_of (zip ''ABCDEFGHIJKLMNOPQRSTUVWXYZ'' ''abcdefghijklmnopqrstuvwxyz'') c of
        Some d \<Rightarrow> d
      | None \<Rightarrow> c)"

definition lower :: "string \<Rightarrow> string" where
  \<comment> \<open>\<^verbatim>\<open>str.lower()\<close> on the ASCII letters; header names and tokens are ASCII.\<close>
  "lower s = map lower_char s"

definition is_space :: "char \<Rightarrow> bool" where
  \<comment> \<open>the ASCII characters \<^verbatim>\<open>str.strip()\<close> removes: TAB, LF, VT, FF, CR, FS, GS, RS, US, SPACE\<close>
  "is_space c = (c \<in> set [CHR 0x09, CHR 0x0A, CHR 0x0B, CHR 0x0C, CHR 0x0D,
                            CHR 0x1C, CHR 0x1D, CHR 0x1E, CHR 0x1F, CHR 0x20])"

definition strip :: "string \<Rightarrow> string" where
  "strip s = rev (dropWhile is_space (rev (dropWhile is_space s)))"

fun split :: "char \<Rightarrow> string \<Rightarrow> string list" where
  \<comment> \<open>\<^verbatim>\<open>s.split(sep)\<close> for a one-character separator: never the empty list\<close>
  "split sep [] = [[]]"
| "split sep (c # cs) =
     (if c = sep then [] # split sep cs
      else (case split sep cs of
              w # ws \<Rightarrow> (c # w) # ws
            | [] \<Rightarrow> [[c]]))"

fun join :: "string \<Rightarrow> string list \<Rightarrow> string" where
  \<comment> \<open>\<^verbatim>\<open>sep.join(xs)\<close>\<close>
  "join sep [] = []"
| "join sep [x] = x"
| "join sep (x # y # ys) = x @ sep @ join sep (y # ys)"

fun str_contains :: "string \<Rightarrow> string \<Rightarrow> bool" where
  \<comment> \<open>\<^verbatim>\<open>q in s\<close> on two strings: \<open>q\<close> occurs in \<open>s\<close> at some position\<close>
  "str_contains q [] = (q = [])"
| "str_contains q (c # cs) = (prefix q (c # cs) \<or> str_contains q cs)"

definition is_ascii :: "string \<Rightarrow> bool" where
  \<comment> \<open>\<^verbatim>\<open>s.encode('us-ascii')\<close> succeeds: no byte has its top bit set\<close>
  "is_ascii s = list_all (\<lambda>c. \<not> digit7 c) s"

subsection \<open>The library's codecs and parsers, as parameters\<close>

record library =
  message_from_bytes :: "string \<Rightarrow> message"
    \<comment> \<open>\<^verbatim>\<open>email.message_from_bytes\<close>\<close>
  get_filename :: "header list \<Rightarrow> string option"
    \<comment> \<open>\<^verbatim>\<open>Message.get_filename()\<close>: the \<^verbatim>\<open>filename\<close> parameter of Content-Disposition, else
       the \<^verbatim>\<open>name\<close> parameter of Content-Type, unquoted and RFC 2231-decoded\<close>
  charset_decode :: "header list \<Rightarrow> string \<Rightarrow> string"
    \<comment> \<open>a payload with 8-bit bytes, decoded by the part's \<^verbatim>\<open>charset\<close> parameter\<close>
  body_encode :: "string \<Rightarrow> string"
    \<comment> \<open>\<^verbatim>\<open>email.base64mime.body_encode\<close>: base64 in lines of 76 characters\<close>
  bencode :: "string \<Rightarrow> string"
    \<comment> \<open>\<^verbatim>\<open>email.encoders._bencode\<close>\<close>
  decode_b :: "string \<Rightarrow> string"
    \<comment> \<open>\<^verbatim>\<open>decode_b(b''.join(bpayload.splitlines()))\<close>, the decoded value\<close>
  decodestring :: "string \<Rightarrow> string"
    \<comment> \<open>\<^verbatim>\<open>quopri.decodestring\<close>\<close>
  decode_uu :: "string \<Rightarrow> string"
    \<comment> \<open>\<^verbatim>\<open>_decode_uu\<close>, the input itself where that raises ValueError\<close>
  as_string :: "message \<Rightarrow> string + string"
    \<comment> \<open>\<^verbatim>\<open>Message.as_string()\<close>, then the ASCII encoding \<^verbatim>\<open>sendmail\<close> applies to it:
       \<open>Inl d\<close> when either raises an exception \<open>e\<close> with \<^verbatim>\<open>str(e)\<close> = \<open>d\<close>\<close>
  str_recipients_refused :: "string list \<Rightarrow> string"
    \<comment> \<open>\<^verbatim>\<open>str(SMTPRecipientsRefused(senderrs))\<close>, by the refused addresses\<close>

subsection \<open>\<^verbatim>\<open>email.message.Message\<close>\<close>

definition get :: "message \<Rightarrow> string \<Rightarrow> string option" where
  \<comment> \<open>\<^verbatim>\<open>Message.get(name)\<close> and \<^verbatim>\<open>message[name]\<close>: the stored value of the first header
     whose name matches, case-insensitively; \<open>None\<close> when there is none. This is what the
     caller receives when the value is text, as every value of a message built by
     \<^verbatim>\<open>send_email\<close> is; for a value of a parsed message see \<open>getitem\<close>.\<close>
  "get m name = map_option snd (find (\<lambda>(k, v). lower k = lower name) (headers m))"

datatype header_value = Text string | Header string

definition getitem :: "message \<Rightarrow> string \<Rightarrow> header_value option" where
  \<comment> \<open>\<^verbatim>\<open>message[name]\<close> on a parsed message. The parser keeps a byte above 127 as a surrogate
     escape, and \<^verbatim>\<open>header_fetch_parse\<close> (policy compat32) hands a value with such bytes to
     the caller as an \<^verbatim>\<open>email.header.Header\<close> object, any other value as text.\<close>
  "getitem m name =
     (case get m name of
        None \<Rightarrow> None
      | Some v \<Rightarrow> Some (if is_ascii v then Text v else Header v))"

definition is_multipart :: "message \<Rightarrow> bool" where
  "is_multipart m = (case m of Leaf h d t \<Rightarrow> False | Container h d ps \<Rightarrow> True)"

definition get_content_type :: "message \<Rightarrow> string" where
  "get_content_type m =
     (case get m ''content-type'' of
        None \<Rightarrow> default_type m
      | Some v \<Rightarrow>
          (let ctype = lower (strip (takeWhile (\<lambda>c. c \<noteq> CHR '';'') v)) in
           if count_list ctype (CHR ''/'') \<noteq> 1 then ''text/plain'' else ctype))"

definition get_content_maintype :: "message \<Rightarrow> string" where
  "get_content_maintype m = hd (split (CHR ''/'') (get_content_type m))"

definition get_payload :: "library \<Rightarrow> message \<Rightarrow> payload" where
  \<comment> \<open>\<^verbatim>\<open>get_payload()\<close>: the list of a container; the text of a single part, decoded by its
     charset when it holds 8-bit bytes\<close>
  "get_payload lib m =
     (case m of
        Container h d ps \<Rightarrow> Lst ps
      | Leaf h d t \<Rightarrow> Str (if is_ascii t then t else charset_decode lib h t))"

definition get_payload_decode :: "library \<Rightarrow> header list \<Rightarrow> string \<Rightarrow> string" where
  \<comment> \<open>\<^verbatim>\<open>get_payload(None, True)\<close> on a single part: the bytes of the payload, decoded by the
     Content-Transfer-Encoding header\<close>
  "get_payload_decode lib h t =
     (let cte = lower (case find (\<lambda>(k, v). lower k = ''content-transfer-encoding'') h of
                         None \<Rightarrow> [] | Some (k, v) \<Rightarrow> v) in
      if cte = ''quoted-printable'' then decodestring lib t
      else if cte = ''base64'' then decode_b lib t
      else if cte \<in> set [''x-uuencode'', ''uuencode'', ''uue'', ''x-uue''] then decode_uu lib t
      else t)"


definition items :: "message \<Rightarrow> header list" where
  "items m = headers m"

definition dict :: "('k \<times> 'v) list \<Rightarrow> ('k \<rightharpoonup> 'v)" where
  \<comment> \<open>\<^verbatim>\<open>dict(pairs)\<close>: the pairs are stored one after the other, a later one replacing an
     earlier one of the same key\<close>
  "dict kvs = foldl (\<lambda>d (k, v). d(k \<mapsto> v)) Map.empty kvs"

section \<open>class Email: the extraction helpers\<close>

fun get_email_body :: "library \<Rightarrow> message \<Rightarrow> exn + string" where
  "get_email_body lib (Container h d []) = Inl (IndexError ''list index out of range'')"
| "get_email_body lib (Container h d (p # ps)) = get_email_body lib p"
| "get_email_body lib (Leaf h d t) = Inr (get_payload_decode lib h t)"



definition get_email_headers :: "message \<Rightarrow> (string \<rightharpoonup> string)" where
  "get_email_headers email = dict (items email)"

section \<open>The outside world\<close>

datatype rcpt_reply = Accepted | Refused | Closing | Raising string
  \<comment> \<open>\<^verbatim>\<open>SMTP.rcpt\<close>: the reply code 250 or 251; any other code; code 421; or the call raises
     (the connection is lost, the address cannot be encoded), with the description given\<close>

text \<open>
  A failing step is \<open>Some d\<close>, with \<open>d\<close> the \<^verbatim>\<open>str(e)\<close> of the exception \<open>e\<close> it raises.
\<close>

record world =
  read_file :: "string \<Rightarrow> string + string"
    \<comment> \<open>\<^verbatim>\<open>open(path, "rb")\<close> and \<^verbatim>\<open>file.read()\<close>: \<open>Inl d\<close> when an OSError is raised\<close>
  smtp_connect :: "string \<Rightarrow> string option"
    \<comment> \<open>\<^verbatim>\<open>smtplib.SMTP(host)\<close>\<close>
  smtp_login :: "string \<Rightarrow> string option \<Rightarrow> string option"
  smtp_mail :: "string \<Rightarrow> string option"
    \<comment> \<open>MAIL FROM: a reply other than 250 raises SMTPSenderRefused\<close>
  smtp_rcpt :: "string \<Rightarrow> rcpt_reply"
  smtp_data :: "string \<Rightarrow> string option"
    \<comment> \<open>DATA: a reply other than 250 raises SMTPDataError\<close>
  smtp_quit :: "string option \<Rightarrow> string option"
    \<comment> \<open>\<^verbatim>\<open>SMTP.__exit__\<close> (QUIT), given how the block ended\<close>
  imap_open :: "string \<Rightarrow> string \<Rightarrow> string option \<Rightarrow> string option"
    \<comment> \<open>\<^verbatim>\<open>IMAP4_SSL(host)\<close>, \<^verbatim>\<open>login\<close>, \<^verbatim>\<open>select("inbox")\<close> and \<^verbatim>\<open>search(None, "ALL")\<close>\<close>
  imap_search_all :: "string list"
    \<comment> \<open>\<^verbatim>\<open>data[0].split()\<close>: the message identifiers, in the server's order\<close>
  imap_fetch :: "string \<Rightarrow> string"
    \<comment> \<open>\<^verbatim>\<open>email_data[0][1]\<close> of \<^verbatim>\<open>fetch(email_id, "(RFC822)")\<close>: the raw message\<close>
  imap_logout :: "string option"
    \<comment> \<open>\<^verbatim>\<open>IMAP4.__exit__\<close> (LOGOUT)\<close>

record Email =
  sender_email :: string
  sender_password :: "string option"
    \<comment> \<open>\<^verbatim>\<open>os.environ.get('EMAIL_PASSWORD')\<close>: \<open>None\<close> when the variable is not set\<close>
  smtp_server :: string

section \<open>class Email: send_email\<close>

subsection \<open>Building a message\<close>

definition setitem :: "message \<Rightarrow> string \<Rightarrow> string \<Rightarrow> message" where
  \<comment> \<open>\<^verbatim>\<open>message[name] = val\<close> and \<^verbatim>\<open>add_header(name, val)\<close>: the header is appended\<close>
  "setitem m name val =
     (case m of
        Leaf h d t \<Rightarrow> Leaf (h @ [(name, val)]) d t
      | Container h d ps \<Rightarrow> Container (h @ [(name, val)]) d ps)"

fun attach :: "message \<Rightarrow> message \<Rightarrow> exn + message" where
  "attach (Container h d ps) p = Inr (Container h d (ps @ [p]))"
| "attach (Leaf h d t) p =
     Inl (TypeError ''Attach is not valid on a message with a non-multipart payload'')"

definition set_payload :: "message \<Rightarrow> string \<Rightarrow> message" where
  "set_payload m s = Leaf (headers m) (default_type m) s"

definition MIMEBase :: "string \<Rightarrow> string \<Rightarrow> message" where
  "MIMEBase maintype subtype =
     Leaf [(''Content-Type'', maintype @ ''/'' @ subtype), (''MIME-Version'', ''1.0'')]
       ''text/plain'' []"

definition MIMEMultipart :: message where
  "MIMEMultipart =
     Container [(''Content-Type'', ''multipart/mixed''), (''MIME-Version'', ''1.0'')]
       ''text/plain'' []"

definition MIMEText :: "library \<Rightarrow> string \<Rightarrow> string \<Rightarrow> message" where
  \<comment> \<open>no charset given: us-ascii with the text as it is when it encodes as ASCII, else utf-8
     with the text in base64\<close>
  \<open>MIMEText lib txt subtype =
     (if is_ascii txt
      then Leaf [(''Content-Type'', ''text/'' @ subtype @ ''; charset="us-ascii"''),
                 (''MIME-Version'', ''1.0''),
                 (''Content-Transfer-Encoding'', ''7bit'')] ''text/plain'' txt
      else Leaf [(''Content-Type'', ''text/'' @ subtype @ ''; charset="utf-8"''),
                 (''MIME-Version'', ''1.0''),
                 (''Content-Transfer-Encoding'', ''base64'')] ''text/plain'' (body_encode lib txt))\<close>

definition encode_base64 :: "library \<Rightarrow> message \<Rightarrow> message" where
  "encode_base64 lib msg =
     (let orig = get_payload_decode lib (headers msg) (content msg);
          encdata = bencode lib orig
      in setitem (set_payload msg encdata) ''Content-Transfer-Encoding'' ''base64'')"

definition build_message ::
  "world \<Rightarrow> library \<Rightarrow> Email \<Rightarrow> string list \<Rightarrow> string \<Rightarrow> string \<Rightarrow> string option \<Rightarrow> exn + message" where
  \<comment> \<open>lines 40 to 56 of \<^verbatim>\<open>send_email\<close>: everything before the \<^verbatim>\<open>try\<close>\<close>
  "build_message w lib self recipient_emails subject body attachment =
     (let message = MIMEMultipart;
          message = setitem message ''From'' (sender_email self);
          message = setitem message ''To'' (join '', '' recipient_emails);
          message = setitem message ''Subject'' subject
      in case attach message (MIMEText lib body ''plain'') of
           Inl e \<Rightarrow> Inl e
         | Inr message \<Rightarrow>
             (case attachment of
                None \<Rightarrow> Inr message
              | Some path \<Rightarrow>
                  if path = [] then Inr message
                  else (case read_file w path of
                          Inl d \<Rightarrow> Inl (OSError d)
                        | Inr data \<Rightarrow>
                            (let part = MIMEBase ''application'' ''octet-stream'';
                                 part = set_payload part data;
                                 part = encode_base64 lib part;
                                 part = setitem part ''Content-Disposition''
                                          (''attachment; filename= '' @ last (split (CHR ''/'') path))
                             in attach message part))))"

subsection \<open>\<^verbatim>\<open>smtplib.SMTP\<close>\<close>

fun rcpt_loop :: "world \<Rightarrow> library \<Rightarrow> string list \<Rightarrow> string list \<Rightarrow> string + string list" where
  \<comment> \<open>the \<^verbatim>\<open>for each in to_addrs\<close> loop of \<^verbatim>\<open>sendmail\<close>; \<open>senderrs\<close> holds the keys of the
     dictionary of refused recipients\<close>
  "rcpt_loop w lib [] senderrs = Inr senderrs"
| "rcpt_loop w lib (each # rest) senderrs =
     (case smtp_rcpt w each of
        Raising d \<Rightarrow> Inl d
      | reply \<Rightarrow>
          (let senderrs = (if reply \<noteq> Accepted \<and> each \<notin> set senderrs then senderrs @ [each]
                           else senderrs)
           in if reply = Closing then Inl (str_recipients_refused lib senderrs)
              else rcpt_loop w lib rest senderrs))"

definition sendmail :: "world \<Rightarrow> library \<Rightarrow> string \<Rightarrow> string list \<Rightarrow> string \<Rightarrow> string option" where
  \<comment> \<open>\<open>None\<close>: returned; \<open>Some d\<close>: raised. After the loop,
     \<^verbatim>\<open>if len(senderrs) == len(to_addrs): raise SMTPRecipientsRefused(senderrs)\<close>\<close>
  "sendmail w lib from_addr to_addrs msg =
     (case smtp_mail w from_addr of
        Some d \<Rightarrow> Some d
      | None \<Rightarrow>
          (case rcpt_loop w lib to_addrs [] of
             Inl d \<Rightarrow> Some d
           | Inr senderrs \<Rightarrow>
               if length senderrs = length to_addrs
               then Some (str_recipients_refused lib senderrs)
               else smtp_data w msg))"

definition smtp_session :: "world \<Rightarrow> library \<Rightarrow> Email \<Rightarrow> string list \<Rightarrow> message \<Rightarrow> string option" where
  \<comment> \<open>the \<^verbatim>\<open>with smtplib.SMTP(...) as server\<close> block: \<open>Some d\<close> when an exception leaves it.
     An exception of \<^verbatim>\<open>__exit__\<close> replaces the one of the block.\<close>
  "smtp_session w lib self recipient_emails message =
     (case smtp_connect w (smtp_server self) of
        Some d \<Rightarrow> Some d
      | None \<Rightarrow>
          (let block =
                 (case smtp_login w (sender_email self) (sender_password self) of
                    Some d \<Rightarrow> Some d
                  | None \<Rightarrow>
                      (case as_string lib message of
                         Inl d \<Rightarrow> Some d
                       | Inr msg \<Rightarrow> sendmail w lib (sender_email self) recipient_emails msg))
           in case smtp_quit w block of
                Some d \<Rightarrow> Some d
              | None \<Rightarrow> block))"

definition send_email ::
  "world \<Rightarrow> library \<Rightarrow> Email \<Rightarrow> string list \<Rightarrow> string \<Rightarrow> string \<Rightarrow> string option \<Rightarrow> exn + string" where
  "send_email w lib self recipient_emails subject body attachment =
     (case build_message w lib self recipient_emails subject body attachment of
        Inl e \<Rightarrow> Inl e
      | Inr message \<Rightarrow>
          (case smtp_session w lib self recipient_emails message of
             None \<Rightarrow> Inr ''Email sent successfully.''
           | Some d \<Rightarrow> Inr (''Failed to send email. Error: '' @ d)))"

section \<open>class Email: the searches that filter on the client\<close>

definition py_in :: "string \<Rightarrow> payload \<Rightarrow> bool" where
  \<comment> \<open>\<^verbatim>\<open>body in email_message.get_payload()\<close>: a substring test on text; on the list of a
     container a membership test, and a \<^verbatim>\<open>str\<close> never equals a \<^verbatim>\<open>Message\<close>\<close>
  "py_in q p = (case p of Str s \<Rightarrow> str_contains q s | Lst ps \<Rightarrow> False)"

definition imap_session :: "world \<Rightarrow> Email \<Rightarrow> (string list \<Rightarrow> exn + 'a) \<Rightarrow> exn + 'a" where
  \<comment> \<open>the \<^verbatim>\<open>with imaplib.IMAP4_SSL(...) as server\<close> block around the loop \<open>block\<close>\<close>
  "imap_session w self block =
     (case imap_open w (smtp_server self) (sender_email self) (sender_password self) of
        Some d \<Rightarrow> Inl (IMAP4_error d)
      | None \<Rightarrow>
          (let r = block (imap_search_all w)
           in case imap_logout w of
                Some d \<Rightarrow> Inl (IMAP4_error d)
              | None \<Rightarrow> r))"

fun body_loop :: "world \<Rightarrow> library \<Rightarrow> string \<Rightarrow> string list \<Rightarrow> message list \<Rightarrow> message list" where
  "body_loop w lib body [] emails = emails"
| "body_loop w lib body (email_id # rest) emails =
     (let raw_email = imap_fetch w email_id;
          email_message = message_from_bytes lib raw_email
      in if py_in body (get_payload lib email_message)
         then body_loop w lib body rest (emails @ [email_message])
         else body_loop w lib body rest emails)"

definition get_emails_by_body :: "world \<Rightarrow> library \<Rightarrow> Email \<Rightarrow> string \<Rightarrow> exn + message list" where
  "get_emails_by_body w lib self body =
     imap_session w self (\<lambda>email_ids. Inr (body_loop w lib body email_ids []))"

fun date_loop :: "world \<Rightarrow> library \<Rightarrow> string \<Rightarrow> string list \<Rightarrow> message list \<Rightarrow> exn + message list" where
  "date_loop w lib date [] emails = Inr emails"
| "date_loop w lib date (email_id # rest) emails =
     (let raw_email = imap_fetch w email_id;
          email_message = message_from_bytes lib raw_email
      in case getitem email_message ''Date'' of
           None \<Rightarrow> Inl (TypeError ''argument of type 'NoneType' is not iterable'')
         | Some (Header v) \<Rightarrow> Inl (TypeError ''argument of type 'Header' is not iterable'')
         | Some (Text d) \<Rightarrow>
             if str_contains date d
             then date_loop w lib date rest (emails @ [email_message])
             else date_loop w lib date rest emails)"

definition get_emails_by_date :: "world \<Rightarrow> library \<Rightarrow> Email \<Rightarrow> string \<Rightarrow> exn + message list" where
  "get_emails_by_date w lib self date =
     imap_session w self (\<lambda>email_ids. date_loop w lib date email_ids [])"

section \<open>An instance of the library and of the world\<close>

text \<open>
  The theorems below hold for every library and every world. To run them on concrete
  inputs, this section gives one instance of each: a parser for a message of one part, or
  of one multipart level with the boundary \<^verbatim>\<open>boundary\<close>, with unfolded header lines;
  parameters of a header without quoting rules; base64; and a server with three messages
  in its inbox.
\<close>

definition b64_alphabet :: string where
  "b64_alphabet = ''ABCDEFGHIJKLMNOPQRSTUVWXYZabcdefghijklmnopqrstuvwxyz0123456789+/''"

definition b64_char :: "nat \<Rightarrow> char" where
  "b64_char i = b64_alphabet ! i"

definition b64_index :: "char \<Rightarrow> nat" where
  "b64_index c = length (takeWhile (\<lambda>x. x \<noteq> c) b64_alphabet)"

fun b64_encode :: "nat list \<Rightarrow> string" where
  "b64_encode (a # b # c # rest) =
     (let n = a * 65536 + b * 256 + c
      in [b64_char (n div 262144), b64_char (n div 4096 mod 64),
          b64_char (n div 64 mod 64), b64_char (n mod 64)] @ b64_encode rest)"
| "b64_encode [a, b] =
     (let n = a * 65536 + b * 256
      in [b64_char (n div 262144), b64_char (n div 4096 mod 64),
          b64_char (n div 64 mod 64), CHR ''=''])"
| "b64_encode [a] =
     (let n = a * 65536
      in [b64_char (n div 262144), b64_char (n div 4096 mod 64), CHR ''='', CHR ''=''])"
| "b64_encode [] = []"

fun b64_decode :: "string \<Rightarrow> nat list" where
  "b64_decode (c1 # c2 # c3 # c4 # rest) =
     (let n = b64_index c1 * 262144 + b64_index c2 * 4096
              + (if c3 = CHR ''='' then 0 else b64_index c3 * 64)
              + (if c4 = CHR ''='' then 0 else b64_index c4)
      in if c3 = CHR ''='' then [n div 65536]
         else if c4 = CHR ''='' then [n div 65536, n div 256 mod 256]
         else [n div 65536, n div 256 mod 256, n mod 256] @ b64_decode rest)"
| "b64_decode cs = []"

fun chunks :: "nat \<Rightarrow> 'a list \<Rightarrow> 'a list list" where
  "chunks n [] = []"
| "chunks n (x # xs) =
     (if n = 0 then [x # xs] else take n (x # xs) # chunks n (drop n (x # xs)))"

definition example_body_encode :: "string \<Rightarrow> string" where
  "example_body_encode s =
     concat (map (\<lambda>line. b64_encode (map of_char line) @ [CHR 0x0A]) (chunks 57 s))"

definition example_decode_b :: "string \<Rightarrow> string" where
  "example_decode_b s =
     map char_of (b64_decode (filter (\<lambda>c. c \<noteq> CHR 0x0A \<and> c \<noteq> CHR 0x0D) s))"

definition unquote :: "string \<Rightarrow> string" where
  "unquote s =
     (if 2 \<le> length s \<and> hd s = CHR 0x22 \<and> last s = CHR 0x22 then butlast (tl s) else s)"

definition header_param :: "string \<Rightarrow> string \<Rightarrow> string option" where
  "header_param name v =
     (case find (\<lambda>p. CHR ''='' \<in> set p \<and> lower (strip (takeWhile (\<lambda>c. c \<noteq> CHR ''='') p)) = name)
             (tl (split (CHR '';'') v)) of
        None \<Rightarrow> None
      | Some p \<Rightarrow> Some (strip (unquote (strip (tl (dropWhile (\<lambda>c. c \<noteq> CHR ''='') p))))))"

definition example_get_filename :: "header list \<Rightarrow> string option" where
  "example_get_filename h =
     (case (case get (Leaf h [] []) ''content-disposition'' of
              None \<Rightarrow> None
            | Some v \<Rightarrow> header_param ''filename'' v) of
        Some f \<Rightarrow> Some f
      | None \<Rightarrow>
          (case get (Leaf h [] []) ''content-type'' of
             None \<Rightarrow> None
           | Some v \<Rightarrow> header_param ''name'' v))"

fun parse_headers :: "string list \<Rightarrow> header list \<times> string list" where
  "parse_headers [] = ([], [])"
| "parse_headers (l # ls) =
     (if l = [] then ([], ls)
      else (case parse_headers ls of
              (hs, rest) \<Rightarrow>
                ((takeWhile (\<lambda>c. c \<noteq> CHR '':'') l,
                  strip (drop 1 (dropWhile (\<lambda>c. c \<noteq> CHR '':'') l))) # hs, rest)))"

fun mime_sections :: "string list \<Rightarrow> string list list" where
  \<comment> \<open>the lines of each part: from a delimiter line to the next one, up to the closing one\<close>
  "mime_sections [] = []"
| "mime_sections (l # ls) =
     (if l = ''--boundary--'' then []
      else if l = ''--boundary''
      then takeWhile (\<lambda>x. x \<noteq> ''--boundary'' \<and> x \<noteq> ''--boundary--'') ls # mime_sections ls
      else mime_sections ls)"

definition example_message_from_bytes :: "string \<Rightarrow> message" where
  "example_message_from_bytes raw =
     (case parse_headers (split (CHR 0x0A) raw) of
        (hs, rest) \<Rightarrow>
          if get_content_maintype (Leaf hs ''text/plain'' []) = ''multipart''
          then Container hs ''text/plain''
                 (map (\<lambda>ls. case parse_headers ls of
                              (hs', body) \<Rightarrow> Leaf hs' ''text/plain'' (join [CHR 0x0A] body))
                    (mime_sections rest))
          else Leaf hs ''text/plain'' (join [CHR 0x0A] rest))"

fun example_as_string :: "message \<Rightarrow> string" where
  "example_as_string (Leaf h d t) =
     concat (map (\<lambda>(k, v). k @ '': '' @ v @ [CHR 0x0A]) h) @ [CHR 0x0A] @ t"
| "example_as_string (Container h d ps) =
     concat (map (\<lambda>(k, v). k @ '': '' @ v @ [CHR 0x0A]) h) @ [CHR 0x0A]
     @ concat (map (\<lambda>p. ''--boundary'' @ [CHR 0x0A] @ example_as_string p @ [CHR 0x0A]) ps)
     @ ''--boundary--''"

definition example_library :: library where
  "example_library =
     \<lparr> message_from_bytes = example_message_from_bytes,
       get_filename = example_get_filename,
       charset_decode = (\<lambda>h t. t),
       body_encode = example_body_encode,
       bencode = (\<lambda>s. b64_encode (map of_char s) @ [CHR 0x0A]),
       decode_b = example_decode_b,
       decodestring = (\<lambda>s. s),
       decode_uu = (\<lambda>s. s),
       as_string = (\<lambda>m. Inr (example_as_string m)),
       str_recipients_refused =
         (\<lambda>addrs. ''{'' @ join '', '' (map (\<lambda>a. a @ '': (550, refused)'') addrs) @ ''}'') \<rparr>"

definition example_inbox :: "(string \<times> string) list" where
  "example_inbox =
     [(''1'', ''Subject: Invoice'' @ [CHR 0x0A] @ ''Date: Mon, 01 Jan 2024 10:00:00 +0000''
              @ [CHR 0x0A, CHR 0x0A] @ ''Please find the invoice attached.''),
      (''2'', ''Subject: Lunch'' @ [CHR 0x0A] @ ''Date: Tue, 02 Jan 2024 12:30:00 +0000''
              @ [CHR 0x0A, CHR 0x0A] @ ''Lunch at noon?''),
      (''3'', ''Subject: Invoice reminder'' @ [CHR 0x0A] @ ''Date: Sat, 03 Feb 2024 09:15:00 +0000''
              @ [CHR 0x0A, CHR 0x0A] @ ''The invoice is due.'')]"

definition example_world :: world where
  "example_world =
     \<lparr> read_file = (\<lambda>path. if path = ''test.txt'' \<or> path = ''/tmp/reports/test.txt''
                             then Inr ''Hello''
                             else Inl (''[Errno 2] No such file or directory: '' @ path)),
       smtp_connect = (\<lambda>host. if host = ''smtp.gmail.com'' then None
                               else Some ''[Errno -2] Name or service not known''),
       smtp_login = (\<lambda>user password. if password = Some ''secret'' then None
                                        else Some ''(535, Username and Password not accepted)''),
       smtp_mail = (\<lambda>from_addr. None),
       smtp_rcpt = (\<lambda>each. if CHR ''@'' \<in> set each then Accepted else Refused),
       smtp_data = (\<lambda>msg. None),
       smtp_quit = (\<lambda>block. None),
       imap_open = (\<lambda>host user password. if password = Some ''secret'' then None
                                             else Some ''[AUTHENTICATIONFAILED] Invalid credentials''),
       imap_search_all = map fst example_inbox,
       imap_fetch = (\<lambda>email_id. case map_of example_inbox email_id of Some raw \<Rightarrow> raw | None \<Rightarrow> []),
       imap_logout = None \<rparr>"

definition example_self :: Email where
  "example_self =
     \<lparr> sender_email = ''me@example.com'', sender_password = Some ''secret'',
       smtp_server = ''smtp.gmail.com'' \<rparr>"

section \<open>The properties, in the words of the specification\<close>

text \<open>
  The definitions of this section are not part of the program. They state what the
  specification says, to be compared with what the embedded code computes, and give the
  concrete inputs on which the theorems are run.
\<close>

definition file_read_fails :: "world \<Rightarrow> string option \<Rightarrow> bool" where
  \<comment> \<open>an attachment path is given and reading the file raises\<close>
  "file_read_fails w attachment =
     (case attachment of
        None \<Rightarrow> False
      | Some path \<Rightarrow> path \<noteq> [] \<and> (case read_file w path of Inl d \<Rightarrow> True | Inr data \<Rightarrow> False))"

definition comma_space_join :: "string list \<Rightarrow> string" where
  \<comment> \<open>the recipients in the given order, a comma and a space between two of them\<close>
  "comma_space_join rs =
     (case rs of [] \<Rightarrow> [] | r # rest \<Rightarrow> r @ concat (map (\<lambda>x. '', '' @ x) rest))"

definition date_header_contains :: "string \<Rightarrow> message \<Rightarrow> bool" where
  \<comment> \<open>the message has a date header and the query is a substring of it\<close>
  "date_header_contains q m =
     (case getitem m ''Date'' of Some (Text d) \<Rightarrow> sublist q d | _ \<Rightarrow> False)"


definition fetched :: "world \<Rightarrow> library \<Rightarrow> message list" where
  \<comment> \<open>the mailbox M1..Mn: every message of the inbox, parsed, in the server's "ALL" order\<close>
  "fetched w lib =
     map (\<lambda>email_id. message_from_bytes lib (imap_fetch w email_id)) (imap_search_all w)"

definition imap_ok :: "world \<Rightarrow> Email \<Rightarrow> bool" where
  \<comment> \<open>the session opens, authenticates, selects, searches and closes without an exception\<close>
  "imap_ok w self =
     (imap_open w (smtp_server self) (sender_email self) (sender_password self) = None \<and>
      imap_logout w = None)"


fun first_leaf :: "message \<Rightarrow> message option" where
  \<comment> \<open>depth first, always sub-part 0: the single part that this path ends in, if any\<close>
  "first_leaf (Leaf h d t) = Some (Leaf h d t)"
| "first_leaf (Container h d []) = None"
| "first_leaf (Container h d (p # ps)) = first_leaf p"

fun every_multipart_nonempty :: "message \<Rightarrow> bool" where
  "every_multipart_nonempty (Leaf h d t) = True"
| "every_multipart_nonempty (Container h d ps) =
     (ps \<noteq> [] \<and> list_all every_multipart_nonempty ps)"

definition example_nested :: message where
  \<comment> \<open>[[text/plain, text/html], image/png], the text/plain part empty\<close>
  "example_nested =
     Container [(''Content-Type'', ''multipart/mixed'')] ''text/plain''
       [Container [(''Content-Type'', ''multipart/alternative'')] ''text/plain''
          [Leaf [(''Content-Type'', ''text/plain'')] ''text/plain'' [],
           Leaf [(''Content-Type'', ''text/html'')] ''text/plain'' ''<p>Quarterly figures</p>''],
        Leaf [(''Content-Type'', ''image/png'')] ''text/plain'' ''PNG'']"

definition example_repeated :: message where
  \<comment> \<open>a message that went through two relays: the header Received occurs twice\<close>
  "example_repeated =
     Leaf [(''Received'', ''from a.example by b.example''),
           (''Received'', ''from b.example by c.example''),
           (''Subject'', ''Hello'')] ''text/plain'' ''Hi.''"




definition example_encoded :: message where
  \<comment> \<open>[[text/plain, text/html], image/png], the text/plain part \<^verbatim>\<open>Hello\<close> in base64\<close>
  "example_encoded =
     Container [(''Content-Type'', ''multipart/mixed'')] ''text/plain''
       [Container [(''Content-Type'', ''multipart/alternative'')] ''text/plain''
          [Leaf [(''Content-Type'', ''text/plain''), (''Content-Transfer-Encoding'', ''Base64'')]
             ''text/plain'' (''SGVsbG8='' @ [CHR 0x0A]),
           Leaf [(''Content-Type'', ''text/html'')] ''text/plain'' ''<p>Hello</p>''],
        Leaf [(''Content-Type'', ''image/png'')] ''text/plain'' ''PNG'']"


definition example_world_multipart :: world where
  \<comment> \<open>the inbox holds one message, multipart, whose text part speaks of an invoice\<close>
  "example_world_multipart =
     example_world
       \<lparr> imap_search_all := [''5''],
         imap_fetch := (\<lambda>email_id.
           ''Subject: Invoice'' @ [CHR 0x0A] @
           ''Content-Type: multipart/mixed; boundary=boundary'' @ [CHR 0x0A, CHR 0x0A] @
           ''--boundary'' @ [CHR 0x0A] @
           ''Content-Type: text/plain'' @ [CHR 0x0A, CHR 0x0A] @
           ''Please find the invoice attached.'' @ [CHR 0x0A] @
           ''--boundary--'') \<rparr>"

definition example_world_undated :: world where
  \<comment> \<open>the inbox holds message 1 and a message 4 that has no Date header\<close>
  "example_world_undated =
     example_world
       \<lparr> imap_search_all := [''1'', ''4''],
         imap_fetch := (\<lambda>email_id. if email_id = ''4''
                                     then ''Subject: Draft'' @ [CHR 0x0A, CHR 0x0A] @ ''No date yet.''
                                     else imap_fetch example_world email_id) \<rparr>"

section \<open>Strings\<close>







lemma str_contains_sublist: "str_contains q s = sublist q s"
  by (induction s) (simp_all add: sublist_Cons_right)

section \<open>send_email\<close>

subsection \<open>The message and the session\<close>

lemma build_message_readable:
  "\<not> file_read_fails w attachment \<Longrightarrow>
     \<exists>message. build_message w lib self rcpts subject body attachment = Inr message"
  by (auto simp: file_read_fails_def build_message_def MIMEMultipart_def setitem_def Let_def
           split: option.splits sum.splits)

lemma build_message_unreadable:
  "file_read_fails w attachment \<Longrightarrow>
     \<exists>d. build_message w lib self rcpts subject body attachment = Inl (OSError d)"
  by (auto simp: file_read_fails_def build_message_def MIMEMultipart_def setitem_def Let_def
           split: option.splits sum.splits)

lemma build_message_no_attachment:
  "build_message w lib self rcpts subject body None =
     Inr (Container [(''Content-Type'', ''multipart/mixed''), (''MIME-Version'', ''1.0''),
                     (''From'', sender_email self), (''To'', join '', '' rcpts),
                     (''Subject'', subject)] ''text/plain'' [MIMEText lib body ''plain''])"
  by (simp add: build_message_def MIMEMultipart_def setitem_def)

lemma sendmail_no_recipients: "sendmail w lib from_addr [] msg \<noteq> None"
  by (simp add: sendmail_def split: option.splits)

lemma smtp_session_no_recipients: "smtp_session w lib self [] message \<noteq> None"
proof (cases "smtp_connect w (smtp_server self)")
  case (Some d)
  then show ?thesis by (simp add: smtp_session_def)
next
  case None
  let ?block = "case smtp_login w (sender_email self) (sender_password self) of
                    Some d \<Rightarrow> Some d
                  | None \<Rightarrow>
                      (case as_string lib message of
                         Inl d \<Rightarrow> Some d
                       | Inr msg \<Rightarrow> sendmail w lib (sender_email self) [] msg)"
  have b: "?block \<noteq> None"
    using sendmail_no_recipients [of w lib "sender_email self"]
    by (simp split: option.splits sum.splits)
  have "smtp_session w lib self [] message =
          (case smtp_quit w ?block of Some d \<Rightarrow> Some d | None \<Rightarrow> ?block)"
    using None by (simp add: smtp_session_def Let_def)
  with b show ?thesis by (simp split: option.splits)
qed

lemma smtp_session_None:
  "smtp_session w lib self rcpts message = None \<longleftrightarrow>
     smtp_connect w (smtp_server self) = None \<and>
     smtp_login w (sender_email self) (sender_password self) = None \<and>
     (\<exists>msg. as_string lib message = Inr msg \<and> sendmail w lib (sender_email self) rcpts msg = None) \<and>
     smtp_quit w None = None"
  by (auto simp: smtp_session_def Let_def split: option.splits sum.splits)

lemma send_email_built:
  "build_message w lib self rcpts subject body attachment = Inr message \<Longrightarrow>
   send_email w lib self rcpts subject body attachment =
     (case smtp_session w lib self rcpts message of
        None \<Rightarrow> Inr ''Email sent successfully.''
      | Some d \<Rightarrow> Inr (''Failed to send email. Error: '' @ d))"
  by (simp add: send_email_def)

subsection \<open>Failures of the session are returned, a failure of the file read is raised\<close>

text \<open>
  Claim C1, as amended. When no attachment is given or the file can be read, \<^verbatim>\<open>send_email\<close>
  never raises: it returns the success string when connecting, logging in, rendering,
  submitting and quitting all succeed, and otherwise the string
  \<^verbatim>\<open>Failed to send email. Error: \<close> followed by the description of the exception that left
  the \<^verbatim>\<open>with\<close> block. The attachment is read before the \<^verbatim>\<open>try\<close> statement: when that read
  fails, the OSError is raised to the caller.
\<close>

theorem send_email_reports_session_failures:
  "(\<not> file_read_fails w attachment \<longrightarrow>
      (\<exists>message. build_message w lib self recipient_emails subject body attachment = Inr message \<and>
         (if smtp_connect w (smtp_server self) = None \<and>
             smtp_login w (sender_email self) (sender_password self) = None \<and>
             (\<exists>msg. as_string lib message = Inr msg \<and>
                    sendmail w lib (sender_email self) recipient_emails msg = None) \<and>
             smtp_quit w None = None
          then send_email w lib self recipient_emails subject body attachment =
                 Inr ''Email sent successfully.''
          else \<exists>d. smtp_session w lib self recipient_emails message = Some d \<and>
                 send_email w lib self recipient_emails subject body attachment =
                   Inr (''Failed to send email. Error: '' @ d)))) \<and>
   (file_read_fails w attachment \<longrightarrow>
      (\<exists>d. send_email w lib self recipient_emails subject body attachment = Inl (OSError d)))"
proof (intro conjI impI)
  assume "\<not> file_read_fails w attachment"
  then obtain message where
    m: "build_message w lib self recipient_emails subject body attachment = Inr message"
    using build_message_readable by blast
  let ?ok = "smtp_connect w (smtp_server self) = None \<and>
             smtp_login w (sender_email self) (sender_password self) = None \<and>
             (\<exists>msg. as_string lib message = Inr msg \<and>
                    sendmail w lib (sender_email self) recipient_emails msg = None) \<and>
             smtp_quit w None = None"
  let ?r = "send_email w lib self recipient_emails subject body attachment"
  have r: "if ?ok then ?r = Inr ''Email sent successfully.''
           else \<exists>d. smtp_session w lib self recipient_emails message = Some d \<and>
                  ?r = Inr (''Failed to send email. Error: '' @ d)"
  proof (cases "smtp_session w lib self recipient_emails message")
    case None
    then have ?ok by (simp only: smtp_session_None)
    moreover have "?r = Inr ''Email sent successfully.''"
      using send_email_built [OF m] None by simp
    ultimately show ?thesis by simp
  next
    case (Some d)
    then have "\<not> ?ok" using smtp_session_None [of w lib self recipient_emails message] by simp
    moreover have "?r = Inr (''Failed to send email. Error: '' @ d)"
      using send_email_built [OF m] Some by simp
    ultimately show ?thesis using Some by simp
  qed
  from m r show "\<exists>message. build_message w lib self recipient_emails subject body attachment = Inr message \<and>
         (if smtp_connect w (smtp_server self) = None \<and>
             smtp_login w (sender_email self) (sender_password self) = None \<and>
             (\<exists>msg. as_string lib message = Inr msg \<and>
                    sendmail w lib (sender_email self) recipient_emails msg = None) \<and>
             smtp_quit w None = None
          then send_email w lib self recipient_emails subject body attachment =
                 Inr ''Email sent successfully.''
          else \<exists>d. smtp_session w lib self recipient_emails message = Some d \<and>
                 send_email w lib self recipient_emails subject body attachment =
                   Inr (''Failed to send email. Error: '' @ d))"
    by (intro exI [of _ message] conjI)
next
  assume "file_read_fails w attachment"
  then obtain d where
    "build_message w lib self recipient_emails subject body attachment = Inl (OSError d)"
    using build_message_unreadable by blast
  then show "\<exists>d. send_email w lib self recipient_emails subject body attachment = Inl (OSError d)"
    by (simp add: send_email_def)
qed

text \<open>
  The theorem at a login that the server rejects (the password is not set), with the
  attachment \<^verbatim>\<open>test.txt\<close> readable.
\<close>

theorem send_email_reports_session_failures_witness:
  "\<not> file_read_fails example_world (Some ''test.txt'') \<and>
   send_email example_world example_library (example_self \<lparr> sender_password := None \<rparr>)
     [''you@example.com''] ''Test'' ''This is a test email.'' (Some ''test.txt'')
   = Inr ''Failed to send email. Error: (535, Username and Password not accepted)''"
proof -
  have f: "\<not> file_read_fails example_world (Some ''test.txt'')"
    by (simp add: file_read_fails_def example_world_def)
  have s: "smtp_session example_world example_library (example_self \<lparr> sender_password := None \<rparr>)
             rcpts message = Some ''(535, Username and Password not accepted)''" for rcpts message
    by (simp add: smtp_session_def example_world_def example_self_def)
  have l: "smtp_login example_world user None = Some ''(535, Username and Password not accepted)''"
      for user
    by (simp add: example_world_def)
  from send_email_reports_session_failures
         [where w = example_world and lib = example_library
            and self = "example_self \<lparr> sender_password := None \<rparr>"
            and recipient_emails = "[''you@example.com'']" and subject = "''Test''"
            and body = "''This is a test email.''" and attachment = "Some ''test.txt''"]
       f
  show ?thesis by (simp add: s l)
qed

text \<open>
  Claim C1 as stated fails: with an attachment path that cannot be opened the call does not
  return an error result, it raises.
\<close>

theorem send_email_file_error_counterexample:
  "send_email example_world example_library example_self [''you@example.com''] ''Test''
     ''This is a test email.'' (Some ''missing.txt'')
   = Inl (OSError ''[Errno 2] No such file or directory: missing.txt'')"
  by (simp add: send_email_def build_message_def example_world_def MIMEMultipart_def
        setitem_def)

subsection \<open>No recipients\<close>

text \<open>
  Claim C2. With the empty recipient list \<^verbatim>\<open>send_email\<close> never reports success: whatever the
  server answers, \<^verbatim>\<open>sendmail\<close> raises SMTPRecipientsRefused at the latest (no recipient was
  accepted, \<^verbatim>\<open>len(senderrs) == len(to_addrs)\<close> with both 0), and the exception is returned
  as an error string. The error string is returned whenever the message could be built,
  that is unless an attachment is given that cannot be read.
\<close>

theorem send_email_rejects_no_recipients:
  "send_email w lib self [] subject body attachment \<noteq> Inr ''Email sent successfully.'' \<and>
   (\<not> file_read_fails w attachment \<longrightarrow>
      (\<exists>d. send_email w lib self [] subject body attachment =
             Inr (''Failed to send email. Error: '' @ d)))"
proof -
  have a: "\<exists>d. send_email w lib self [] subject body attachment =
             Inr (''Failed to send email. Error: '' @ d)"
    if "build_message w lib self [] subject body attachment = Inr message" for message
  proof -
    obtain d where "smtp_session w lib self [] message = Some d"
      using smtp_session_no_recipients [of w lib self message] by auto
    with send_email_built [OF that] show ?thesis by simp
  qed
  have "send_email w lib self [] subject body attachment \<noteq> Inr ''Email sent successfully.''"
  proof (cases "build_message w lib self [] subject body attachment")
    case (Inl e)
    then show ?thesis by (simp add: send_email_def)
  next
    case (Inr message)
    from a [OF this] show ?thesis by auto
  qed
  moreover have "\<not> file_read_fails w attachment \<longrightarrow>
      (\<exists>d. send_email w lib self [] subject body attachment =
             Inr (''Failed to send email. Error: '' @ d))"
    using a build_message_readable [of w attachment lib self "[]" subject body] by blast
  ultimately show ?thesis by blast
qed

theorem send_email_rejects_no_recipients_witness:
  "\<not> file_read_fails example_world None \<and>
   send_email example_world example_library example_self [] ''Test'' ''This is a test email.'' None
   = Inr ''Failed to send email. Error: {}''"
proof -
  have f: "\<not> file_read_fails example_world None"
    by (simp add: file_read_fails_def)
  have "sendmail example_world example_library from_addr [] msg = Some ''{}''" for from_addr msg
    by (simp add: sendmail_def example_world_def example_library_def)
  then have s: "smtp_session example_world example_library example_self [] message = Some ''{}''"
      for message
    by (simp add: smtp_session_def example_world_def example_library_def example_self_def)
  have "\<exists>message. build_message example_world example_library example_self [] ''Test''
           ''This is a test email.'' None = Inr message"
    using build_message_readable [OF f] by blast
  then obtain message where
    "build_message example_world example_library example_self [] ''Test''
       ''This is a test email.'' None = Inr message" ..
  from send_email_built [OF this] s
  have "send_email example_world example_library example_self [] ''Test''
          ''This is a test email.'' None = Inr ''Failed to send email. Error: {}''"
    by simp
  with f send_email_rejects_no_recipients
         [where w = example_world and lib = example_library and self = example_self
            and subject = "''Test''" and body = "''This is a test email.''" and attachment = None]
  show ?thesis by simp
qed

subsection \<open>The "To" header and the body part\<close>

lemma get_To_built:
  "get (Container [(''Content-Type'', ''multipart/mixed''), (''MIME-Version'', ''1.0''),
                   (''From'', f), (''To'', t), (''Subject'', s)] d ps) ''To'' = Some t"
  by (simp add: get_def lower_def lower_char_def)

lemma join_comma_space: "join '', '' rs = comma_space_join rs"
proof (induction rs)
  case Nil
  show ?case by (simp add: comma_space_join_def)
next
  case (Cons r rs)
  then show ?case by (cases rs) (simp_all add: comma_space_join_def)
qed

lemma get_payload_decode_MIMEText:
  "is_ascii body \<or> decode_b lib (body_encode lib body) = body \<Longrightarrow>
   get_payload_decode lib (headers (MIMEText lib body ''plain''))
     (content (MIMEText lib body ''plain'')) = body"
  by (cases "is_ascii body")
     (simp_all add: MIMEText_def get_payload_decode_def lower_def lower_char_def)

lemma example_bytes: "map of_char (''h'' @ [CHR 0xC3, CHR 0xA9] @ ''llo'') = [104, 195, 169, 108, 108, 111::nat]"
  by simp

lemma example_b64_encode: "b64_encode [104, 195, 169, 108, 108, 111] = ''aMOpbGxv''"
  by (simp add: b64_char_def b64_alphabet_def Let_def)

lemma example_b64_decode: "b64_decode ''aMOpbGxv'' = [104, 195, 169, 108, 108, 111]"
  by (simp add: b64_index_def b64_alphabet_def Let_def)

lemma example_codec_roundtrip:
  "decode_b example_library (body_encode example_library (''h'' @ [CHR 0xC3, CHR 0xA9] @ ''llo''))
   = ''h'' @ [CHR 0xC3, CHR 0xA9] @ ''llo''"
proof -
  let ?s = "''h'' @ [CHR 0xC3, CHR 0xA9] @ ''llo''"
  have "body_encode example_library ?s = ''aMOpbGxv'' @ [CHR 0x0A]"
    by (simp add: example_library_def example_body_encode_def b64_char_def b64_alphabet_def)
  then have "decode_b example_library (body_encode example_library ?s)
             = map char_of (b64_decode ''aMOpbGxv'')"
    by (simp add: example_library_def example_decode_b_def)
  also have "\<dots> = map char_of (map of_char ?s :: nat list)"
    by (simp only: example_b64_decode example_bytes)
  also have "\<dots> = ?s"
    by (simp only: map_map comp_def char_of_char map_ident)
  finally show ?thesis .
qed

text \<open>
  Claim C3. For a non-empty recipient list and any subject and body, the message built
  without an attachment has the "To" header equal to the recipients joined by a comma and
  a space in the given order, and one part, whose payload decodes to the body; so
  \<^verbatim>\<open>get_email_body\<close> of the built message is the body. A body that is ASCII is stored as it
  is (7bit). Any other body is stored in base64 by the library and decoded by the library:
  for it the theorem assumes that the library's base64 codec gives this body back.
\<close>

theorem send_email_builds_to_header_and_body:
  assumes "recipient_emails \<noteq> []"
    and "is_ascii body \<or> decode_b lib (body_encode lib body) = body"
  shows "\<exists>message part.
           build_message w lib self recipient_emails subject body None = Inr message \<and>
           get message ''To'' = Some (comma_space_join recipient_emails) \<and>
           parts message = [part] \<and>
           get_payload_decode lib (headers part) (content part) = body \<and>
           get_email_body lib message = Inr body"
proof -
  let ?part = "MIMEText lib body ''plain''"
  let ?message = "Container [(''Content-Type'', ''multipart/mixed''), (''MIME-Version'', ''1.0''),
                     (''From'', sender_email self), (''To'', join '', '' recipient_emails),
                     (''Subject'', subject)] ''text/plain'' [?part]"
  have b: "build_message w lib self recipient_emails subject body None = Inr ?message"
    by (rule build_message_no_attachment)
  have t: "get ?message ''To'' = Some (comma_space_join recipient_emails)"
    by (simp only: get_To_built join_comma_space)
  have d: "get_payload_decode lib (headers ?part) (content ?part) = body"
    using assms(2) by (rule get_payload_decode_MIMEText)
  have l: "?part = Leaf (headers ?part) (default_type ?part) (content ?part)"
    by (simp add: MIMEText_def)
  have "get_email_body lib ?message = get_email_body lib ?part" by simp
  also have "\<dots> = get_email_body lib (Leaf (headers ?part) (default_type ?part) (content ?part))"
    using l by simp
  also have "\<dots> = Inr body" using d by simp
  finally have e: "get_email_body lib ?message = Inr body" .
  have p: "parts ?message = [?part]" by simp
  from b t p d e show ?thesis by blast
qed

theorem send_email_builds_to_header_and_body_witness:
  "[''you@example.com'', ''boss@example.com''] \<noteq> [] \<and>
   \<not> is_ascii (''h'' @ [CHR 0xC3, CHR 0xA9] @ ''llo'') \<and>
   (\<exists>message part.
      build_message example_world example_library example_self
        [''you@example.com'', ''boss@example.com''] ''Test''
        (''h'' @ [CHR 0xC3, CHR 0xA9] @ ''llo'') None = Inr message \<and>
      get message ''To'' = Some ''you@example.com, boss@example.com'' \<and>
      parts message = [part] \<and>
      get_payload_decode example_library (headers part) (content part)
        = ''h'' @ [CHR 0xC3, CHR 0xA9] @ ''llo'' \<and>
      get_email_body example_library message = Inr (''h'' @ [CHR 0xC3, CHR 0xA9] @ ''llo''))"
proof -
  have n: "[''you@example.com'', ''boss@example.com''] \<noteq> []" by simp
  have a: "\<not> is_ascii (''h'' @ [CHR 0xC3, CHR 0xA9] @ ''llo'')"
    by (simp add: is_ascii_def)
  have j: "comma_space_join [''you@example.com'', ''boss@example.com'']
           = ''you@example.com, boss@example.com''"
    by (simp add: comma_space_join_def)
  from send_email_builds_to_header_and_body
         [where lib = example_library and w = example_world and self = example_self
            and subject = "''Test''", OF n disjI2, OF example_codec_roundtrip]
  obtain message part where
    m: "build_message example_world example_library example_self
          [''you@example.com'', ''boss@example.com''] ''Test''
          (''h'' @ [CHR 0xC3, CHR 0xA9] @ ''llo'') None = Inr message"
       "get message ''To'' = Some (comma_space_join [''you@example.com'', ''boss@example.com''])"
       "parts message = [part]"
       "get_payload_decode example_library (headers part) (content part)
          = ''h'' @ [CHR 0xC3, CHR 0xA9] @ ''llo''"
       "get_email_body example_library message = Inr (''h'' @ [CHR 0xC3, CHR 0xA9] @ ''llo'')"
    by blast
  note t = m(2) [unfolded j]
  show ?thesis
    by (intro conjI exI [of _ message] exI [of _ part]) (fact n a m(1) t m(3) m(4) m(5))+
qed

subsection \<open>The attachment part\<close>

lemma build_message_attachment:
  "path \<noteq> [] \<Longrightarrow> read_file w path = Inr data \<Longrightarrow>
   build_message w lib self rcpts subject body (Some path) =
     Inr (Container [(''Content-Type'', ''multipart/mixed''), (''MIME-Version'', ''1.0''),
                     (''From'', sender_email self), (''To'', join '', '' rcpts),
                     (''Subject'', subject)] ''text/plain''
            [MIMEText lib body ''plain'',
             Leaf [(''Content-Type'', ''application/octet-stream''), (''MIME-Version'', ''1.0''),
                   (''Content-Transfer-Encoding'', ''base64''),
                   (''Content-Disposition'',
                    ''attachment; filename= '' @ last (split (CHR ''/'') path))]
               ''text/plain'' (bencode lib data)])"
  by (simp add: build_message_def MIMEMultipart_def setitem_def MIMEBase_def set_payload_def
        encode_base64_def get_payload_decode_def lower_def lower_char_def)




text \<open>
  On the instance, the header written for \<^verbatim>\<open>test.txt\<close> reads back as the filename
  \<^verbatim>\<open>test.txt\<close>, and the five bytes \<^verbatim>\<open>Hello\<close> of the file are the payload \<^verbatim>\<open>SGVsbG8=\<close>.
\<close>

lemma example_attachment_part:
  "build_message example_world example_library example_self [''you@example.com''] ''Test''
     ''This is a test email.'' (Some ''test.txt'') = Inr message \<Longrightarrow>
   parts message = [body_part, part] \<Longrightarrow>
   get_filename example_library (headers part) = Some ''test.txt'' \<and>
   content part = ''SGVsbG8='' @ [CHR 0x0A]"
proof -
  assume b: "build_message example_world example_library example_self [''you@example.com'']
               ''Test'' ''This is a test email.'' (Some ''test.txt'') = Inr message"
    and p: "parts message = [body_part, part]"
  have r: "read_file example_world ''test.txt'' = Inr ''Hello''"
    by (simp add: example_world_def)
  have e: "bencode example_library ''Hello'' = ''SGVsbG8='' @ [CHR 0x0A]"
    by (simp add: example_library_def b64_char_def b64_alphabet_def)
  have "part = Leaf [(''Content-Type'', ''application/octet-stream''), (''MIME-Version'', ''1.0''),
                   (''Content-Transfer-Encoding'', ''base64''),
                   (''Content-Disposition'', ''attachment; filename= test.txt'')]
               ''text/plain'' (''SGVsbG8='' @ [CHR 0x0A])"
    using b p build_message_attachment [OF _ r, of example_library example_self
        "[''you@example.com'']" "''Test''" "''This is a test email.''"] e
    by auto
  moreover have "get_filename example_library
      [(''Content-Type'', ''application/octet-stream''), (''MIME-Version'', ''1.0''),
       (''Content-Transfer-Encoding'', ''base64''),
       (''Content-Disposition'', ''attachment; filename= test.txt'')] = Some ''test.txt''"
    by (simp add: example_library_def example_get_filename_def header_param_def get_def
          lower_def lower_char_def strip_def is_space_def unquote_def)
  ultimately show ?thesis by simp
qed

section \<open>get_email_body\<close>

lemma get_email_body_first_leaf:
  "get_email_body lib m =
     (case first_leaf m of
        None \<Rightarrow> Inl (IndexError ''list index out of range'')
      | Some l \<Rightarrow> Inr (get_payload_decode lib (headers l) (content l)))"
  by (induction lib m rule: get_email_body.induct) simp_all

lemma get_email_body_total:
  "every_multipart_nonempty m \<Longrightarrow> \<exists>b. get_email_body lib m = Inr b"
  by (induction lib m rule: get_email_body.induct) simp_all

lemma find_transfer_encoding:
  "find (\<lambda>(k, v). lower k = ''content-transfer-encoding'') h =
   find (\<lambda>(k, v). lower k = lower ''Content-Transfer-Encoding'') h"
  by (simp add: lower_def lower_char_def)

lemma get_payload_decode_no_encoding:
  "get (Leaf h d t) ''Content-Transfer-Encoding'' = None \<Longrightarrow> get_payload_decode lib h t = t"
  unfolding get_def get_payload_decode_def find_transfer_encoding
  by (cases "find (\<lambda>(k, v). lower k = lower ''Content-Transfer-Encoding'') h")
     (simp_all add: lower_def Let_def)

lemma get_payload_decode_encoding:
  "get (Leaf h d t) ''Content-Transfer-Encoding'' = Some v \<Longrightarrow>
   get_payload_decode lib h t =
     (if lower v = ''quoted-printable'' then decodestring lib t
      else if lower v = ''base64'' then decode_b lib t
      else if lower v \<in> {''x-uuencode'', ''uuencode'', ''uue'', ''x-uue''} then decode_uu lib t
      else t)"
  unfolding get_def get_payload_decode_def find_transfer_encoding
  by (cases "find (\<lambda>(k, v). lower k = lower ''Content-Transfer-Encoding'') h") auto

text \<open>
  Claim C6. On a multipart container \<^verbatim>\<open>get_email_body\<close> recurses into sub-part 0 and looks at
  no other sub-part, so the result is that of the first leaf of the tree, whatever that
  leaf holds: on [[text/plain, text/html], image/png] it is the result of the text/plain
  part. On a single part it returns the raw content decoded by the part's
  Content-Transfer-Encoding header (compared without regard to case): the library's
  quoted-printable, base64 or uuencode decoding of the content for these encodings, and
  the content as it is for any other encoding or when the header is missing.
\<close>

theorem get_email_body_first_branch:
  "get_email_body lib (Container h d (p # ps)) = get_email_body lib p \<and>
   get_email_body lib m =
     (case first_leaf m of
        None \<Rightarrow> Inl (IndexError ''list index out of range'')
      | Some l \<Rightarrow> get_email_body lib l) \<and>
   get_email_body lib
     (Container ha da [Container hb db [Leaf hp dp tp, Leaf hh dh th], Leaf hi di ti]) =
     get_email_body lib (Leaf hp dp tp) \<and>
   (get (Leaf h d t) ''Content-Transfer-Encoding'' = None \<longrightarrow>
      get_email_body lib (Leaf h d t) = Inr t) \<and>
   (get (Leaf h d t) ''Content-Transfer-Encoding'' = Some v \<longrightarrow>
      get_email_body lib (Leaf h d t) =
        Inr (if lower v = ''quoted-printable'' then decodestring lib t
             else if lower v = ''base64'' then decode_b lib t
             else if lower v \<in> {''x-uuencode'', ''uuencode'', ''uue'', ''x-uue''}
             then decode_uu lib t
             else t))"
proof -
  have "get_email_body lib m =
     (case first_leaf m of
        None \<Rightarrow> Inl (IndexError ''list index out of range'')
      | Some l \<Rightarrow> get_email_body lib l)"
    by (induction lib m rule: get_email_body.induct) simp_all
  then show ?thesis
    by (simp add: get_payload_decode_no_encoding get_payload_decode_encoding)
qed

lemma example_hello_bytes: "map of_char ''Hello'' = [72, 101, 108, 108, 111::nat]"
  by simp

lemma example_hello_decode: "b64_decode ''SGVsbG8='' = [72, 101, 108, 108, 111]"
  by (simp add: b64_index_def b64_alphabet_def Let_def)

lemma example_hello: "decode_b example_library (''SGVsbG8='' @ [CHR 0x0A]) = ''Hello''"
proof -
  have "decode_b example_library (''SGVsbG8='' @ [CHR 0x0A]) = map char_of (b64_decode ''SGVsbG8='')"
    by (simp add: example_library_def example_decode_b_def)
  also have "\<dots> = map char_of (map of_char ''Hello'' :: nat list)"
    by (simp only: example_hello_decode example_hello_bytes)
  also have "\<dots> = ''Hello''"
    by (simp only: map_map comp_def char_of_char map_ident)
  finally show ?thesis .
qed

text \<open>
  The theorem on two trees of the shape [[text/plain, text/html], image/png]: one whose
  text/plain part is \<^verbatim>\<open>Hello\<close> in base64, which is returned decoded, and one whose
  text/plain part is empty, which is returned although the text/html part has text.
\<close>

theorem get_email_body_first_branch_witness:
  "get (Leaf [(''Content-Type'', ''text/plain''), (''Content-Transfer-Encoding'', ''Base64'')]
          ''text/plain'' (''SGVsbG8='' @ [CHR 0x0A])) ''Content-Transfer-Encoding'' = Some ''Base64'' \<and>
   get_email_body example_library example_encoded = Inr ''Hello'' \<and>
   get (Leaf [(''Content-Type'', ''text/plain'')] ''text/plain'' [])
     ''Content-Transfer-Encoding'' = None \<and>
   get_email_body example_library example_nested = Inr []"
proof -
  let ?h = "[(''Content-Type'', ''text/plain''), (''Content-Transfer-Encoding'', ''Base64'')]"
  let ?t = "''SGVsbG8='' @ [CHR 0x0A]"
  have g1: "get (Leaf ?h ''text/plain'' ?t) ''Content-Transfer-Encoding'' = Some ''Base64''"
    by (simp add: get_def lower_def lower_char_def)
  have g2: "get (Leaf [(''Content-Type'', ''text/plain'')] ''text/plain'' [])
              ''Content-Transfer-Encoding'' = None"
    by (simp add: get_def lower_def lower_char_def)
  have l: "lower ''Base64'' = ''base64''"
    by (simp add: lower_def lower_char_def)
  note t1 = get_email_body_first_branch
              [where lib = example_library and h = ?h and d = "''text/plain''" and t = ?t
                 and v = "''Base64''"
                 and ha = "[(''Content-Type'', ''multipart/mixed'')]" and da = "''text/plain''"
                 and hb = "[(''Content-Type'', ''multipart/alternative'')]" and db = "''text/plain''"
                 and hp = ?h and dp = "''text/plain''" and tp = ?t
                 and hh = "[(''Content-Type'', ''text/html'')]" and dh = "''text/plain''"
                 and th = "''<p>Hello</p>''"
                 and hi = "[(''Content-Type'', ''image/png'')]" and di = "''text/plain''"
                 and ti = "''PNG''"]
  have "get_email_body example_library example_encoded = Inr (decode_b example_library ?t)"
    unfolding example_encoded_def using t1 g1 by (simp add: l)
  then have e1: "get_email_body example_library example_encoded = Inr ''Hello''"
    by (simp only: example_hello)
  note t2 = get_email_body_first_branch
              [where lib = example_library and h = "[(''Content-Type'', ''text/plain'')]"
                 and d = "''text/plain''" and t = "[]"
                 and ha = "[(''Content-Type'', ''multipart/mixed'')]" and da = "''text/plain''"
                 and hb = "[(''Content-Type'', ''multipart/alternative'')]" and db = "''text/plain''"
                 and hp = "[(''Content-Type'', ''text/plain'')]" and dp = "''text/plain''"
                 and tp = "[]"
                 and hh = "[(''Content-Type'', ''text/html'')]" and dh = "''text/plain''"
                 and th = "''<p>Quarterly figures</p>''"
                 and hi = "[(''Content-Type'', ''image/png'')]" and di = "''text/plain''"
                 and ti = "''PNG''"]
  have e2: "get_email_body example_library example_nested = Inr []"
    unfolding example_nested_def using t2 g2 by simp
  from g1 e1 g2 e2 show ?thesis by (intro conjI)
qed

text \<open>
  Claim C10. \<^verbatim>\<open>get_email_body\<close> is a total function: its recursion descends into sub-part 0
  of the message it was given. On a tree in which every multipart node has a sub-part it
  returns a value; on a multipart node with no sub-part the access to index 0 raises
  IndexError. (Python's bound on the depth of recursion is not modelled.)
\<close>

theorem get_email_body_terminates:
  "(every_multipart_nonempty m \<longrightarrow> (\<exists>b. get_email_body lib m = Inr b)) \<and>
   get_email_body lib (Container h d []) = Inl (IndexError ''list index out of range'')"
  using get_email_body_total [of m lib] by simp

theorem get_email_body_terminates_witness:
  "every_multipart_nonempty example_nested \<and>
   (\<exists>b. get_email_body example_library example_nested = Inr b)"
proof -
  have "every_multipart_nonempty example_nested"
    by (simp add: example_nested_def)
  with get_email_body_terminates [of example_nested example_library]
  show ?thesis by blast
qed

section \<open>get_attachments\<close>











section \<open>get_email_headers\<close>

lemma dict_foldl:
  "foldl (\<lambda>d (k, v). d(k \<mapsto> v)) m kvs = m ++ map_of (rev kvs)"
proof (induction kvs arbitrary: m)
  case Nil
  show ?case by simp
next
  case (Cons kv kvs)
  obtain k v where kv: "kv = (k, v)" by (cases kv)
  have "foldl (\<lambda>d (k, v). d(k \<mapsto> v)) m (kv # kvs) =
        foldl (\<lambda>d (k, v). d(k \<mapsto> v)) (m(k \<mapsto> v)) kvs"
    by (simp only: kv foldl_Cons prod.case)
  also have "\<dots> = m(k \<mapsto> v) ++ map_of (rev kvs)"
    by (rule Cons.IH)
  also have "m(k \<mapsto> v) = m ++ map_of [(k, v)]"
    by simp
  also have "(m ++ map_of [(k, v)]) ++ map_of (rev kvs) = m ++ map_of (rev (kv # kvs))"
    by (simp only: kv rev.simps map_of_append map_add_assoc)
  finally show ?case .
qed

lemma dict_map_of: "dict kvs = map_of (rev kvs)"
  by (simp add: dict_def dict_foldl)

lemma map_of_find:
  "map_of xs k = map_option snd (find (\<lambda>(k', v). k' = k) xs)"
  by (induction xs) auto

text \<open>
  Claim C5, as amended. The mapping returned by \<^verbatim>\<open>get_email_headers\<close> is a dictionary: it
  has one entry for each header name of the message (in its exact spelling), and the value
  of that entry is the value of the last header of that name. The earlier occurrences of a
  name that repeats are not in the mapping.
\<close>

theorem get_email_headers_keeps_last:
  "get_email_headers email name =
     map_option snd (find (\<lambda>(k, v). k = name) (rev (items email))) \<and>
   dom (get_email_headers email) = fst ` set (items email)"
proof -
  have "get_email_headers email = map_of (rev (items email))"
    by (simp add: get_email_headers_def dict_map_of)
  then show ?thesis
    by (simp add: map_of_find dom_map_of_conv_image_fst)
qed

text \<open>
  Claim C5 as stated fails: of the two Received headers of a message, the first is in the
  header list and is nowhere in the mapping.
\<close>

theorem get_email_headers_repeated_counterexample:
  "(''Received'', ''from a.example by b.example'') \<in> set (items example_repeated) \<and>
   get_email_headers example_repeated ''Received'' = Some ''from b.example by c.example'' \<and>
   ''from a.example by b.example'' \<notin> ran (get_email_headers example_repeated)"
proof -
  have m: "get_email_headers example_repeated =
             map_of [(''Subject'', ''Hello''),
                     (''Received'', ''from b.example by c.example''),
                     (''Received'', ''from a.example by b.example'')]"
    by (simp add: get_email_headers_def dict_map_of items_def example_repeated_def)
  have "''from a.example by b.example'' \<notin> ran (get_email_headers example_repeated)"
    unfolding m ran_def by (auto split: if_splits)
  moreover have "get_email_headers example_repeated ''Received'' = Some ''from b.example by c.example''"
    unfolding m by simp
  moreover have "(''Received'', ''from a.example by b.example'') \<in> set (items example_repeated)"
    by (simp add: items_def example_repeated_def)
  ultimately show ?thesis by simp
qed

section \<open>The searches that filter on the client\<close>

lemma body_loop_filter:
  "body_loop w lib q ids emails =
     emails @ filter (\<lambda>m. py_in q (get_payload lib m))
                (map (\<lambda>i. message_from_bytes lib (imap_fetch w i)) ids)"
  by (induction ids arbitrary: emails) (simp_all add: Let_def)

lemma imap_session_ok:
  "imap_ok w self \<Longrightarrow> imap_session w self block = block (imap_search_all w)"
  by (simp add: imap_ok_def imap_session_def)

lemma example_imap_ok: "imap_ok example_world example_self"
  by (simp add: imap_ok_def example_world_def example_self_def)

subsection \<open>get_emails_by_body\<close>

text \<open>
  When the session runs without an exception, \<^verbatim>\<open>get_emails_by_body\<close> returns the fetched
  messages that pass the test \<^verbatim>\<open>body in email_message.get_payload()\<close>, in the server's order.
  For a single part with ASCII text the test is the substring test on that text. For a
  multipart message \<^verbatim>\<open>get_payload()\<close> is the list of its sub-parts, the test is a
  membership test of a string among messages, and its value is False whatever the
  sub-parts hold.
\<close>

lemma get_emails_by_body_filter:
  "imap_ok w self \<Longrightarrow>
   get_emails_by_body w lib self body =
     Inr (filter (\<lambda>m. py_in body (get_payload lib m)) (fetched w lib))"
  by (simp add: get_emails_by_body_def imap_session_ok body_loop_filter fetched_def)

lemma py_in_single_part:
  "is_ascii t \<Longrightarrow> py_in q (get_payload lib (Leaf h d t)) = sublist q t"
  by (simp add: py_in_def get_payload_def str_contains_sublist)

lemma py_in_multipart: "\<not> py_in q (get_payload lib (Container h d ps))"
  by (simp add: py_in_def get_payload_def)

lemma example_multipart_fetched:
  "fetched example_world_multipart example_library =
     [Container [(''Subject'', ''Invoice''),
                 (''Content-Type'', ''multipart/mixed; boundary=boundary'')] ''text/plain''
        [Leaf [(''Content-Type'', ''text/plain'')] ''text/plain''
           ''Please find the invoice attached.'']]"
  by (simp add: fetched_def example_world_multipart_def example_world_def example_library_def
        example_message_from_bytes_def strip_def is_space_def
        get_content_maintype_def get_content_type_def get_def lower_def lower_char_def)

text \<open>
  Claim C4 does not hold of the code. The inbox holds one message, of type
  multipart/mixed, whose text part reads \<^verbatim>\<open>Please find the invoice attached.\<close>: that text is
  the body \<^verbatim>\<open>get_email_body\<close> returns for the message, it contains the query \<^verbatim>\<open>invoice\<close>, and
  so do the bytes of the message as the server sends them; yet the search for \<^verbatim>\<open>invoice\<close>
  returns the empty list.
\<close>

theorem get_emails_by_body_misses_multipart:
  "fetched example_world_multipart example_library =
     [Container [(''Subject'', ''Invoice''),
                 (''Content-Type'', ''multipart/mixed; boundary=boundary'')] ''text/plain''
        [Leaf [(''Content-Type'', ''text/plain'')] ''text/plain''
           ''Please find the invoice attached.'']] \<and>
   get_email_body example_library
     (Container [(''Subject'', ''Invoice''),
                 (''Content-Type'', ''multipart/mixed; boundary=boundary'')] ''text/plain''
        [Leaf [(''Content-Type'', ''text/plain'')] ''text/plain''
           ''Please find the invoice attached.'']) = Inr ''Please find the invoice attached.'' \<and>
   sublist ''invoice'' ''Please find the invoice attached.'' \<and>
   sublist ''invoice'' (imap_fetch example_world_multipart ''5'') \<and>
   get_emails_by_body example_world_multipart example_library example_self ''invoice'' = Inr []"
proof -
  have o: "imap_ok example_world_multipart example_self"
    by (simp add: imap_ok_def example_world_multipart_def example_world_def example_self_def)
  have b: "get_email_body example_library
     (Container [(''Subject'', ''Invoice''),
                 (''Content-Type'', ''multipart/mixed; boundary=boundary'')] ''text/plain''
        [Leaf [(''Content-Type'', ''text/plain'')] ''text/plain''
           ''Please find the invoice attached.'']) = Inr ''Please find the invoice attached.''"
    by (simp add: get_payload_decode_def lower_def lower_char_def)
  have c: "sublist ''invoice'' ''Please find the invoice attached.''"
    unfolding str_contains_sublist [symmetric] by simp
  have f: "sublist ''invoice'' (imap_fetch example_world_multipart ''5'')"
    unfolding str_contains_sublist [symmetric] by (simp add: example_world_multipart_def)
  have "get_emails_by_body example_world_multipart example_library example_self ''invoice'' =
          Inr (filter (\<lambda>m. py_in ''invoice'' (get_payload example_library m))
                 (fetched example_world_multipart example_library))"
    using o by (rule get_emails_by_body_filter)
  then have r: "get_emails_by_body example_world_multipart example_library example_self
                  ''invoice'' = Inr []"
    by (simp only: example_multipart_fetched filter.simps py_in_multipart if_False)
  from example_multipart_fetched b c f r show ?thesis by (intro conjI)
qed

subsection \<open>get_emails_by_date\<close>

text \<open>
  When every fetched message has a Date header that is text, \<^verbatim>\<open>get_emails_by_date\<close> returns
  the messages whose date contains the query. When a fetched message has no Date header,
  \<^verbatim>\<open>email_message["Date"]\<close> is None and the test \<^verbatim>\<open>date in None\<close> raises TypeError; the same
  test raises on the Header object that stands for a date with bytes above 127.
\<close>

lemma date_loop_all_dated:
  "\<forall>i \<in> set ids. \<exists>d. getitem (message_from_bytes lib (imap_fetch w i)) ''Date'' = Some (Text d) \<Longrightarrow>
   date_loop w lib date ids emails =
     Inr (emails @ filter (date_header_contains date)
                     (map (\<lambda>i. message_from_bytes lib (imap_fetch w i)) ids))"
  by (induction ids arbitrary: emails)
     (auto simp: Let_def date_header_contains_def str_contains_sublist)

lemma date_loop_raises:
  "\<exists>i \<in> set ids. \<forall>d. getitem (message_from_bytes lib (imap_fetch w i)) ''Date'' \<noteq> Some (Text d) \<Longrightarrow>
   \<exists>e. date_loop w lib date ids emails = Inl (TypeError e)"
  by (induction ids arbitrary: emails)
     (auto simp: Let_def split: option.splits header_value.splits)

lemma get_emails_by_date_all_dated:
  "imap_ok w self \<Longrightarrow> \<forall>m \<in> set (fetched w lib). \<exists>d. getitem m ''Date'' = Some (Text d) \<Longrightarrow>
   get_emails_by_date w lib self date =
     Inr (filter (date_header_contains date) (fetched w lib))"
  using date_loop_all_dated [where ids = "imap_search_all w" and lib = lib and w = w
                              and date = date and emails = "[]"]
  by (simp add: get_emails_by_date_def imap_session_ok fetched_def)

lemma get_emails_by_date_raises:
  "imap_ok w self \<Longrightarrow> \<exists>m \<in> set (fetched w lib). \<forall>d. getitem m ''Date'' \<noteq> Some (Text d) \<Longrightarrow>
   \<exists>e. get_emails_by_date w lib self date = Inl (TypeError e)"
  using date_loop_raises [where ids = "imap_search_all w" and lib = lib and w = w
                           and date = date and emails = "[]"]
  by (simp add: get_emails_by_date_def imap_session_ok fetched_def)

lemma example_undated_fetched:
  "message_from_bytes example_library (imap_fetch example_world_undated ''1'') =
     Leaf [(''Subject'', ''Invoice''), (''Date'', ''Mon, 01 Jan 2024 10:00:00 +0000'')]
       ''text/plain'' ''Please find the invoice attached.''"
  "message_from_bytes example_library (imap_fetch example_world_undated ''4'') =
     Leaf [(''Subject'', ''Draft'')] ''text/plain'' ''No date yet.''"
  by (simp_all add: example_world_undated_def example_world_def example_inbox_def
        example_library_def example_message_from_bytes_def strip_def is_space_def
        get_content_maintype_def get_content_type_def get_def lower_def lower_char_def)

text \<open>
  Claim C8 does not hold of the code: with a message without a Date header in the inbox
  the search raises TypeError where the claim says that the message does not match and the
  result is a sequence. Here the inbox holds a message of January 2024 and an undated
  draft, and the query matches neither.
\<close>

theorem get_emails_by_date_undated_message_raises:
  "get_emails_by_date example_world_undated example_library example_self ''Feb 2024'' =
     Inl (TypeError ''argument of type 'NoneType' is not iterable'')"
proof -
  have o: "imap_ok example_world_undated example_self"
    by (simp add: imap_ok_def example_world_undated_def example_world_def example_self_def)
  have i: "imap_search_all example_world_undated = [''1'', ''4'']"
    by (simp add: example_world_undated_def)
  have g1: "getitem (Leaf [(''Subject'', ''Invoice''),
                           (''Date'', ''Mon, 01 Jan 2024 10:00:00 +0000'')]
                       ''text/plain'' ''Please find the invoice attached.'') ''Date''
            = Some (Text ''Mon, 01 Jan 2024 10:00:00 +0000'')"
    by (simp add: getitem_def get_def lower_def lower_char_def is_ascii_def)
  have g4: "getitem (Leaf [(''Subject'', ''Draft'')] ''text/plain'' ''No date yet.'') ''Date'' = None"
    by (simp add: getitem_def get_def lower_def lower_char_def)
  have n: "\<not> str_contains ''Feb 2024'' ''Mon, 01 Jan 2024 10:00:00 +0000''"
    by simp
  have d: "date_loop example_world_undated example_library ''Feb 2024''
             (imap_search_all example_world_undated) [] =
           Inl (TypeError ''argument of type 'NoneType' is not iterable'')"
    unfolding i by (simp add: Let_def example_undated_fetched g1 g4 n del: str_contains.simps)
  show ?thesis
    unfolding get_emails_by_date_def by (simp only: imap_session_ok [OF o] d)
qed

end
